theory Spec2Isabelle
  imports Main "HOL-Library.Word"
begin

section \<open>Buffers\<close>

text \<open>
  A Node \<open>Buffer\<close> is a sequence of octets. Offsets, lengths and the numbers
  parsed from the query string are JavaScript numbers; the embedding takes them as
  unbounded integers (the source never leaves the integers on them), so the value
  \<open>NaN\<close> that \<open>parseInt\<close> gives for an absent parameter is not represented.
\<close>

type_synonym byte = "8 word"
type_synonym buffer = "byte list"

text \<open>
  A \<open>throw\<close> does not undo the assignments made before it, so every operation that
  can throw returns how it completed together with the state it left behind.
\<close>

datatype error = Error | RangeError | ReferenceError | TypeError

datatype 'a completion = Return 'a | Throw error

text \<open>\<open>buf.slice(start)\<close>: a negative start counts from the end, and both ends are clamped.\<close>

definition slice :: "buffer \<Rightarrow> int \<Rightarrow> buffer" where
  "slice buf start =
     (let len = int (length buf);
          from = (if start < 0 then max (len + start) 0 else min start len)
      in drop (nat from) buf)"

text \<open>\<open>Buffer.prototype.bslice\<close>: the tail of \<open>index\<close> octets, empty for index 0.\<close>

definition bslice :: "buffer \<Rightarrow> int \<Rightarrow> error + buffer" where
  "bslice buf index =
     (if index > int (length buf) \<or> index < 0 then Inl Error
      else if index = 0 then Inr []
      else Inr (slice buf (- index)))"

definition friendlyBufferRelease :: int where
  "friendlyBufferRelease = 256 * 256 * 16"

subsection \<open>The four octets of the ack header\<close>

text \<open>The big-endian two's complement octets of a number, as \<open>writeInt32BE\<close> lays them out.\<close>

definition int32BE :: "int \<Rightarrow> buffer" where
  "int32BE v =
     (let u = v mod 2 ^ 32
      in [word_of_int (u div 2 ^ 24), word_of_int (u div 2 ^ 16),
          word_of_int (u div 2 ^ 8), word_of_int u])"

text \<open>
  \<open>new Buffer(4)\<close> followed by \<open>writeInt32BE(value, 0)\<close>: without \<open>noAssert\<close> the
  call throws for a value that is not a signed 32-bit integer.
\<close>

definition writeInt32BE :: "int \<Rightarrow> error + buffer" where
  "writeInt32BE v =
     (if - (2 ^ 31) \<le> v \<and> v < 2 ^ 31 then Inr (int32BE v) else Inl RangeError)"

text \<open>\<open>buf.readInt32BE(0)\<close>: throws when the buffer has fewer than four octets.\<close>

definition readInt32BE :: "buffer \<Rightarrow> error + int" where
  "readInt32BE buf =
     (if length buf < 4 then Inl RangeError
      else let u = uint (buf ! 0) * 2 ^ 24 + uint (buf ! 1) * 2 ^ 16
                   + uint (buf ! 2) * 2 ^ 8 + uint (buf ! 3)
           in Inr (if u < 2 ^ 31 then u else u - 2 ^ 32))"

section \<open>Frontend connections\<close>

text \<open>
  A WebSocket connection is an object that several places refer to (the session's
  \<open>frontendCon\<close>, the closures of its handlers), so connections live in a store indexed
  by their identity. What the relay does to a connection is recorded as the sequence of
  calls made on it; \<open>pos\<close> is the property that \<open>adopt\<close> adds.
\<close>

datatype call = SendBytes buffer | Close

record connection =
  pos :: int
  calls :: "call list"

type_synonym connections = "nat \<Rightarrow> connection"

definition sendBytes :: "nat \<Rightarrow> buffer \<Rightarrow> connections \<Rightarrow> connections" where
  "sendBytes c data cs = cs(c := (cs c)\<lparr>calls := calls (cs c) @ [SendBytes data]\<rparr>)"

definition close :: "nat \<Rightarrow> connections \<Rightarrow> connections" where
  "close c cs = cs(c := (cs c)\<lparr>calls := calls (cs c) @ [Close]\<rparr>)"

text \<open>
  \<open>frontendCon.closeProtocol\<close>: a header with ack -1, then the WebSocket close. The
  constant -1 is in the range of \<open>writeInt32BE\<close>, so the header is always written.
\<close>

definition closeProtocol :: "nat \<Rightarrow> connections \<Rightarrow> connections" where
  "closeProtocol c cs = close c (sendBytes c (int32BE (- 1)) cs)"

section \<open>Sessions\<close>

text \<open>
  The backend \<open>net.Socket\<close>: its two counters, the octets handed to its
  \<open>write\<close> method (here \<open>socket_write\<close>) and the octets it has delivered in
  \<open>data\<close> events.
\<close>

record socket =
  bytesWritten :: nat
  bytesRead :: nat
  outgoing :: buffer
  incoming :: buffer

definition socket_write :: "socket \<Rightarrow> buffer \<Rightarrow> socket" where
  "socket_write sock data =
     sock\<lparr>bytesWritten := bytesWritten sock + length data, outgoing := outgoing sock @ data\<rparr>"

record session =
  sid :: string
  backendSocket :: socket
  B2FUnacked :: buffer
  frontendCon :: "nat option"

text \<open>\<open>Session.prototype.sendFragment\<close>\<close>

definition sendFragment :: "session \<Rightarrow> buffer \<Rightarrow> connections \<Rightarrow> unit completion \<times> connections" where
  "sendFragment ses fragment cs =
     (case frontendCon ses of
        None \<Rightarrow> (Return (), cs)
      | Some c \<Rightarrow>
          (case writeInt32BE (min (int (bytesWritten (backendSocket ses))) (pos (cs c))) of
             Inl e \<Rightarrow> (Throw e, cs)
           | Inr headerBuffer \<Rightarrow> (Return (), sendBytes c (headerBuffer @ fragment) cs)))"

text \<open>\<open>Session.prototype.shrinkBuffer\<close>\<close>

definition shrinkBuffer :: "session \<Rightarrow> int \<Rightarrow> bool completion \<times> session" where
  "shrinkBuffer ses ack =
     (if ack > int (bytesRead (backendSocket ses)) then (Return False, ses)
      else if ack < int (bytesRead (backendSocket ses)) - int (length (B2FUnacked ses))
      then (Return False, ses)
      else (case bslice (B2FUnacked ses) (int (bytesRead (backendSocket ses)) - ack) of
              Inl e \<Rightarrow> (Throw e, ses)
            | Inr b \<Rightarrow> (Return True, ses\<lparr>B2FUnacked := b\<rparr>)))"

text \<open>
  The \<open>data\<close> handler of the backend socket. The socket has counted and delivered the
  chunk before the handler runs.
\<close>

definition backendData :: "session \<Rightarrow> buffer \<Rightarrow> connections \<Rightarrow> unit completion \<times> session \<times> connections" where
  "backendData ses buf cs =
     (let sock = backendSocket ses;
          ses1 = ses\<lparr>backendSocket :=
                   sock\<lparr>bytesRead := bytesRead sock + length buf, incoming := incoming sock @ buf\<rparr>\<rparr>
      in case sendFragment ses1 buf cs of
           (Throw e, cs1) \<Rightarrow> (Throw e, ses1, cs1)
         | (Return u, cs1) \<Rightarrow> (Return (), ses1\<lparr>B2FUnacked := B2FUnacked ses1 @ buf\<rparr>, cs1))"

text \<open>The \<open>close\<close> handler that \<open>adopt\<close> registers on the connection \<open>c\<close>.\<close>

definition frontendClose :: "session \<Rightarrow> nat \<Rightarrow> session" where
  "frontendClose ses c = (if frontendCon ses = Some c then ses\<lparr>frontendCon := None\<rparr> else ses)"

text \<open>
  The \<open>message\<close> handler that \<open>adopt\<close> registers on the connection \<open>c\<close>.
  \<open>frontendCon.emit("close")\<close> runs the \<open>close\<close> handler above and nothing else of the
  relay.
\<close>

datatype message = Utf8 string | Binary buffer

definition frontendMessage :: "session \<Rightarrow> nat \<Rightarrow> message \<Rightarrow> connections \<Rightarrow> unit completion \<times> session \<times> connections" where
  "frontendMessage ses c msg cs =
     (case msg of
        Utf8 text \<Rightarrow> (Return (), ses, closeProtocol c cs)
      | Binary binaryData \<Rightarrow>
          (let cs1 = cs(c := (cs c)\<lparr>pos := pos (cs c) + (int (length binaryData) - 4)\<rparr>)
           in case bslice binaryData
                     (max (pos (cs1 c) - int (bytesWritten (backendSocket ses))) 0) of
                Inl e \<Rightarrow> (Throw e, ses, cs1)
              | Inr unseenPayload \<Rightarrow>
                  (let ses1 = ses\<lparr>backendSocket := socket_write (backendSocket ses) unseenPayload\<rparr>
                   in case readInt32BE binaryData of
                        Inl e \<Rightarrow> (Throw e, ses1, cs1)
                      | Inr ack \<Rightarrow>
                          (case shrinkBuffer ses1 ack of
                             (Throw e, ses2) \<Rightarrow> (Throw e, ses2, cs1)
                           | (Return ok, ses2) \<Rightarrow>
                               if \<not> ok then (Return (), frontendClose ses2 c, cs1)
                               else if int (bytesWritten (backendSocket ses2)) - pos (cs1 c)
                                         > friendlyBufferRelease
                               then (case sendFragment ses2 [] cs1 of
                                       (r, cs2) \<Rightarrow> (r, ses2, cs2))
                               else (Return (), ses2, cs1)))))"

text \<open>
  \<open>Session.prototype.adopt\<close>. The branch for a position ahead of the backend names
  the variable \<open>frontend\<close>, which is declared nowhere: evaluating it throws.
\<close>

definition adopt :: "session \<Rightarrow> nat \<Rightarrow> int \<Rightarrow> int \<Rightarrow> connections \<Rightarrow> unit completion \<times> session \<times> connections" where
  "adopt ses c ack p cs =
     (let cs1 = (case frontendCon ses of Some old \<Rightarrow> closeProtocol old cs | None \<Rightarrow> cs)
      in if p > int (bytesWritten (backendSocket ses)) then (Throw ReferenceError, ses, cs1)
         else
           (let cs2 = cs1(c := (cs1 c)\<lparr>pos := p\<rparr>)
            in case shrinkBuffer ses ack of
                 (Throw e, ses1) \<Rightarrow> (Throw e, ses1, cs2)
               | (Return ok, ses1) \<Rightarrow>
                   if \<not> ok then (Return (), ses1, closeProtocol c cs2)
                   else
                     (let ses2 = ses1\<lparr>frontendCon := Some c\<rparr>
                      in case sendFragment ses2 (B2FUnacked ses2) cs2 of
                           (r, cs3) \<Rightarrow> (r, ses2, cs3))))"

section \<open>The registry and the WebSocket endpoint\<close>

text \<open>
  \<open>sessions\<close> is an object used as a dictionary: a key that was never assigned reads as
  \<open>undefined\<close> (here \<open>None\<close>), an assigned key holds \<open>null\<close> or a session.
\<close>

datatype slot = Null | Object session

type_synonym registry = "string \<rightharpoonup> slot"

text \<open>The success callback of \<open>/proxy\<close> enters the session.\<close>

definition callbackSuccess :: "session \<Rightarrow> registry \<Rightarrow> registry" where
  "callbackSuccess ses sessions = sessions(sid ses \<mapsto> Object ses)"

text \<open>The \<open>close\<close> handler of the backend socket, which also runs after an error.\<close>

definition backendClose :: "session \<Rightarrow> registry \<Rightarrow> connections \<Rightarrow> registry \<times> connections" where
  "backendClose ses sessions cs =
     (sessions(sid ses \<mapsto> Null),
      (case frontendCon ses of Some c \<Rightarrow> closeProtocol c cs | None \<Rightarrow> cs))"

text \<open>
  A WebSocket upgrade request: the path, the \<open>sid\<close> of the query if there is one, and
  the numbers that \<open>parseInt\<close> reads from \<open>ack\<close> and \<open>pos\<close>.
\<close>

record request =
  pathname :: string
  query_sid :: "string option"
  query_ack :: int
  query_pos :: int

text \<open>
  The \<open>request\<close> handler of the WebSocket server; \<open>c\<close> is the connection that
  \<open>request.accept\<close> returns. An empty \<open>sid\<close> is falsy, like an absent one. Calling
  a method on \<open>null\<close> throws.
\<close>

definition wsRequest :: "request \<Rightarrow> nat \<Rightarrow> registry \<Rightarrow> connections \<Rightarrow> unit completion \<times> registry \<times> connections" where
  "wsRequest req c sessions cs =
     (let cs1 = (if pathname req \<noteq> ''/connect'' then closeProtocol c cs else cs)
      in case query_sid req of
           None \<Rightarrow> (Return (), sessions, closeProtocol c cs1)
         | Some k \<Rightarrow>
             if k = [] then (Return (), sessions, closeProtocol c cs1)
             else
               (case sessions k of
                  None \<Rightarrow> (Return (), sessions, closeProtocol c cs1)
                | Some Null \<Rightarrow> (Throw TypeError, sessions, cs1)
                | Some (Object ses) \<Rightarrow>
                    (case adopt ses c (query_ack req) (query_pos req) cs1 of
                       (r, ses1, cs2) \<Rightarrow> (r, sessions(k \<mapsto> Object ses1), cs2))))"

text \<open>
  \<open>new Session(host, port, ...)\<close>: the fields the constructor sets. The host and the
  port only serve to open the socket; the identifier that \<open>uuid.v4()\<close> draws is a
  parameter.
\<close>

definition Session :: "string \<Rightarrow> session" where
  "Session uuid =
     \<lparr>sid = uuid,
      backendSocket = \<lparr>bytesWritten = 0, bytesRead = 0, outgoing = [], incoming = []\<rparr>,
      B2FUnacked = [],
      frontendCon = None\<rparr>"

text \<open>Connections as \<open>request.accept\<close> hands them over: nothing has been called on them.\<close>

definition accepted :: connections where
  "accepted = (\<lambda>c. \<lparr>pos = 0, calls = []\<rparr>)"

section \<open>The retransmission buffer as a tail of the backend stream\<close>

text \<open>
  The buffer is meant to hold the end of what the backend has produced: the socket has
  read exactly the octets it delivered, and \<open>B2FUnacked\<close> is the last part of them.
\<close>

definition unackedTail :: "session \<Rightarrow> bool" where
  "unackedTail ses \<longleftrightarrow>
     bytesRead (backendSocket ses) = length (incoming (backendSocket ses))
     \<and> B2FUnacked ses =
         drop (length (incoming (backendSocket ses)) - length (B2FUnacked ses))
           (incoming (backendSocket ses))"

section \<open>The header: what is written is what is read\<close>

lemma length_int32BE: "length (int32BE v) = 4"
  by (simp add: int32BE_def Let_def)

lemma int32BE_0: "int32BE 0 = [0, 0, 0, 0]"
  by (simp add: int32BE_def)

lemma int32BE_1: "int32BE 1 = [0, 0, 0, 1]"
  by (simp add: int32BE_def)

lemma int32BE_minus1: "int32BE (- 1) = [255, 255, 255, 255]"
  by (simp add: int32BE_def)

lemma int32BE_minus2: "int32BE (- 2) = [255, 255, 255, 254]"
  by (simp add: int32BE_def)

lemma int32BE_3: "int32BE 3 = [0, 0, 0, 3]"
  by (simp add: int32BE_def)

lemma int32BE_10: "int32BE 10 = [0, 0, 0, 10]"
  by (simp add: int32BE_def)


lemma int32BE_66001: "int32BE 66001 = [0, 1, 1, 209]"
  by (simp add: int32BE_def)

lemma int32BE_66051: "int32BE 66051 = [0, 1, 2, 3]"
  by (simp add: int32BE_def)

lemma writeInt32BE_minus1: "writeInt32BE (- 1) = Inr (int32BE (- 1))"
  by (simp add: writeInt32BE_def)

lemma bytes_of_u32:
  fixes u :: int
  assumes "0 \<le> u" "u < 2 ^ 32"
  shows "(u div 2 ^ 24) mod 256 * 2 ^ 24 + (u div 2 ^ 16) mod 256 * 2 ^ 16
           + (u div 2 ^ 8) mod 256 * 2 ^ 8 + u mod 256 = u"
proof -
  define a where "a = u div 256"
  define b where "b = a div 256"
  define c where "c = b div 256"
  have 1: "u = 256 * a + u mod 256" by (simp add: a_def)
  have 2: "a = 256 * b + a mod 256" by (simp add: b_def)
  have 3: "b = 256 * c + b mod 256" by (simp add: c_def)
  have a: "u div 2 ^ 8 = a" by (simp add: a_def)
  have b: "u div 2 ^ 16 = b" unfolding b_def a_def by (simp add: zdiv_zmult2_eq)
  have c: "u div 2 ^ 24 = c" unfolding c_def b_def a_def by (simp add: zdiv_zmult2_eq)
  have "c < 256" "0 \<le> c" using assms c by auto
  then have cm: "c mod 256 = c" by simp
  have "c * 16777216 + b mod 256 * 65536 + a mod 256 * 256 + u mod 256 = u"
    using 1 2 3 by linarith
  then show ?thesis unfolding a b c cm by simp
qed

lemma readInt32BE_int32BE:
  assumes "- (2 ^ 31) \<le> v" "v < 2 ^ 31"
  shows "readInt32BE (int32BE v @ payload) = Inr v"
proof -
  define u where "u = v mod 2 ^ 32"
  have u: "0 \<le> u" "u < 2 ^ 32" by (simp_all add: u_def)
  have uv: "u = (if v < 0 then v + 2 ^ 32 else v)"
  proof (cases "v < 0")
    case True
    then have "(v + 2 ^ 32) mod 2 ^ 32 = v + 2 ^ 32"
      using assms by (intro mod_pos_pos_trivial) auto
    then show ?thesis using True by (simp add: u_def)
  next
    case False
    then show ?thesis using assms by (simp add: u_def)
  qed
  have by8: "uint (word_of_int x :: byte) = x mod 256" for x
    by (simp add: uint_word_of_int)
  have len: "\<not> length (int32BE v @ payload) < 4" by (simp add: length_int32BE)
  have "readInt32BE (int32BE v @ payload) = Inr (if u < 2 ^ 31 then u else u - 2 ^ 32)"
    unfolding readInt32BE_def if_not_P[OF len]
    unfolding int32BE_def Let_def u_def[symmetric]
    by (simp only: append_Cons nth_Cons_0 nth_Cons_Suc by8 bytes_of_u32[OF u]
        numeral_3_eq_3 numeral_2_eq_2 One_nat_def)
  then show ?thesis using assms uv by (simp split: if_splits)
qed

section \<open>Tails of buffers\<close>

lemma bslice_tail:
  assumes "0 \<le> i" "i \<le> int (length buf)"
  shows "bslice buf i = Inr (drop (length buf - nat i) buf)"
  using assms by (auto simp: bslice_def slice_def Let_def max_def nat_diff_distrib')

lemma bslice_throws: "i < 0 \<or> int (length buf) < i \<Longrightarrow> bslice buf i = Inl Error"
  by (auto simp: bslice_def)

section \<open>Connections: what a call appends\<close>

lemma calls_sendBytes: "calls (sendBytes c data cs c) = calls (cs c) @ [SendBytes data]"
  by (simp add: sendBytes_def)

lemma calls_closeProtocol:
  "calls (closeProtocol c cs c) = calls (cs c) @ [SendBytes (int32BE (- 1)), Close]"
  by (simp add: closeProtocol_def close_def sendBytes_def)


section \<open>Shrinking the buffer\<close>

lemma shrinkBuffer_ahead:
  "int (bytesRead (backendSocket ses)) < a \<Longrightarrow> shrinkBuffer ses a = (Return False, ses)"
  by (simp add: shrinkBuffer_def)

lemma shrinkBuffer_behind:
  "a < int (bytesRead (backendSocket ses)) - int (length (B2FUnacked ses))
     \<Longrightarrow> shrinkBuffer ses a = (Return False, ses)"
  by (simp add: shrinkBuffer_def)

lemma shrinkBuffer_ok:
  assumes "a \<le> int (bytesRead (backendSocket ses))"
    and "int (bytesRead (backendSocket ses)) - int (length (B2FUnacked ses)) \<le> a"
  shows "shrinkBuffer ses a =
           (Return True,
            ses\<lparr>B2FUnacked := drop (length (B2FUnacked ses)
                                      - nat (int (bytesRead (backendSocket ses)) - a))
                                (B2FUnacked ses)\<rparr>)"
proof -
  have "bslice (B2FUnacked ses) (int (bytesRead (backendSocket ses)) - a) =
          Inr (drop (length (B2FUnacked ses) - nat (int (bytesRead (backendSocket ses)) - a))
                 (B2FUnacked ses))"
    using assms by (intro bslice_tail) auto
  then show ?thesis using assms by (simp add: shrinkBuffer_def)
qed

lemma shrinkBuffer_keeps:
  "shrinkBuffer ses a = (r, ses') \<Longrightarrow>
     backendSocket ses' = backendSocket ses \<and> frontendCon ses' = frontendCon ses
     \<and> sid ses' = sid ses"
  by (auto simp: shrinkBuffer_def split: if_splits sum.splits)

text \<open>The two checks of \<open>shrinkBuffer\<close> keep \<open>bslice\<close> inside the buffer.\<close>

lemma shrinkBuffer_never_throws: "fst (shrinkBuffer ses a) \<noteq> Throw e"
proof (cases "a \<le> int (bytesRead (backendSocket ses))
              \<and> int (bytesRead (backendSocket ses)) - int (length (B2FUnacked ses)) \<le> a")
  case True
  then show ?thesis by (simp add: shrinkBuffer_ok)
next
  case False
  then show ?thesis by (auto simp: shrinkBuffer_def)
qed

text \<open>
  C2. For every ack \<open>a\<close> given to \<open>shrinkBuffer\<close>: it fails when \<open>a\<close> is above
  \<open>bytesRead\<close>; it fails when \<open>a\<close> is below \<open>bytesRead\<close> minus the length of the
  buffer; otherwise it succeeds and the buffer becomes its last \<open>bytesRead - a\<close> octets.
  An ack equal to \<open>bytesRead\<close> leaves the empty buffer, not the whole one.
\<close>

theorem shrinkBuffer_rules:
  "(int (bytesRead (backendSocket ses)) < a \<longrightarrow> shrinkBuffer ses a = (Return False, ses))
   \<and> (a < int (bytesRead (backendSocket ses)) - int (length (B2FUnacked ses))
        \<longrightarrow> shrinkBuffer ses a = (Return False, ses))
   \<and> (a \<le> int (bytesRead (backendSocket ses))
        \<and> int (bytesRead (backendSocket ses)) - int (length (B2FUnacked ses)) \<le> a
        \<longrightarrow> shrinkBuffer ses a =
              (Return True,
               ses\<lparr>B2FUnacked := drop (length (B2FUnacked ses)
                                         - nat (int (bytesRead (backendSocket ses)) - a))
                                   (B2FUnacked ses)\<rparr>))
   \<and> (a = int (bytesRead (backendSocket ses))
        \<longrightarrow> shrinkBuffer ses a = (Return True, ses\<lparr>B2FUnacked := []\<rparr>))"
proof (intro conjI impI)
  assume "a = int (bytesRead (backendSocket ses))"
  then show "shrinkBuffer ses a = (Return True, ses\<lparr>B2FUnacked := []\<rparr>)"
    using shrinkBuffer_ok [of a ses] by simp
qed (simp_all add: shrinkBuffer_ahead shrinkBuffer_behind shrinkBuffer_ok)

text \<open>
  The backend has produced \<open>abcdef\<close> and \<open>cdef\<close> is still unacknowledged: the acks 7
  and 1 are refused, 4 leaves \<open>ef\<close>, 6 leaves nothing.
\<close>

theorem shrinkBuffer_rules_witness:
  "shrinkBuffer ((Session ''X'')\<lparr>backendSocket := \<lparr>bytesWritten = 0, bytesRead = 6, outgoing = [],
                                                    incoming = [97, 98, 99, 100, 101, 102]\<rparr>,
                                  B2FUnacked := [99, 100, 101, 102]\<rparr>) 7
     = (Return False, (Session ''X'')\<lparr>backendSocket := \<lparr>bytesWritten = 0, bytesRead = 6, outgoing = [],
                                                    incoming = [97, 98, 99, 100, 101, 102]\<rparr>,
                                  B2FUnacked := [99, 100, 101, 102]\<rparr>)
   \<and> shrinkBuffer ((Session ''X'')\<lparr>backendSocket := \<lparr>bytesWritten = 0, bytesRead = 6, outgoing = [],
                                                    incoming = [97, 98, 99, 100, 101, 102]\<rparr>,
                                  B2FUnacked := [99, 100, 101, 102]\<rparr>) 1
     = (Return False, (Session ''X'')\<lparr>backendSocket := \<lparr>bytesWritten = 0, bytesRead = 6, outgoing = [],
                                                    incoming = [97, 98, 99, 100, 101, 102]\<rparr>,
                                  B2FUnacked := [99, 100, 101, 102]\<rparr>)
   \<and> shrinkBuffer ((Session ''X'')\<lparr>backendSocket := \<lparr>bytesWritten = 0, bytesRead = 6, outgoing = [],
                                                    incoming = [97, 98, 99, 100, 101, 102]\<rparr>,
                                  B2FUnacked := [99, 100, 101, 102]\<rparr>) 4
     = (Return True, (Session ''X'')\<lparr>backendSocket := \<lparr>bytesWritten = 0, bytesRead = 6, outgoing = [],
                                                    incoming = [97, 98, 99, 100, 101, 102]\<rparr>,
                                  B2FUnacked := [101, 102]\<rparr>)
   \<and> shrinkBuffer ((Session ''X'')\<lparr>backendSocket := \<lparr>bytesWritten = 0, bytesRead = 6, outgoing = [],
                                                    incoming = [97, 98, 99, 100, 101, 102]\<rparr>,
                                  B2FUnacked := [99, 100, 101, 102]\<rparr>) 6
     = (Return True, (Session ''X'')\<lparr>backendSocket := \<lparr>bytesWritten = 0, bytesRead = 6, outgoing = [],
                                                    incoming = [97, 98, 99, 100, 101, 102]\<rparr>,
                                  B2FUnacked := []\<rparr>)"
proof -
  let ?s = "(Session ''X'')\<lparr>backendSocket := \<lparr>bytesWritten = 0, bytesRead = 6, outgoing = [],
                                                    incoming = [97, 98, 99, 100, 101, 102]\<rparr>,
                                  B2FUnacked := [99, 100, 101, 102]\<rparr>"
  show ?thesis
    using shrinkBuffer_rules [of ?s 7] shrinkBuffer_rules [of ?s 1]
      shrinkBuffer_rules [of ?s 4] shrinkBuffer_rules [of ?s 6]
    by (simp add: Session_def)
qed

section \<open>Sending a fragment\<close>

lemma sendFragment_pos: "sendFragment ses fragment cs = (r, cs') \<Longrightarrow> pos (cs' x) = pos (cs x)"
  by (auto simp: sendFragment_def sendBytes_def split: option.splits sum.splits)


text \<open>When the header cannot be written, nothing is sent.\<close>

lemma sendFragment_thrown:
  "sendFragment ses fragment cs = (Throw e, cs') \<Longrightarrow> cs' = cs"
  by (auto simp: sendFragment_def split: option.splits sum.splits)

lemma sendFragment_in_range:
  assumes "frontendCon ses = Some c"
    and "- (2 ^ 31) \<le> min (int (bytesWritten (backendSocket ses))) (pos (cs c))"
    and "min (int (bytesWritten (backendSocket ses))) (pos (cs c)) < 2 ^ 31"
  shows "sendFragment ses fragment cs =
           (Return (), sendBytes c (int32BE (min (int (bytesWritten (backendSocket ses))) (pos (cs c)))
                                     @ fragment) cs)"
  using assms by (simp add: sendFragment_def writeInt32BE_def)

text \<open>
  C8. With a frontend attached, \<open>sendFragment\<close> either throws and sends nothing, which
  happens exactly when the minimum of \<open>bytesWritten\<close> and the frontend's \<open>pos\<close> is
  not a signed 32-bit number, or it makes one call: a binary frame of the four octets that
  encode that minimum, followed by the fragment. Read back as a big-endian signed number
  the header of every frame sent is that minimum, which is at most the frontend's
  \<open>pos\<close> at the time of sending.
\<close>

theorem sendFragment_ack_header:
  assumes "frontendCon ses = Some c"
  shows "(- (2 ^ 31) \<le> min (int (bytesWritten (backendSocket ses))) (pos (cs c))
            \<and> min (int (bytesWritten (backendSocket ses))) (pos (cs c)) < 2 ^ 31
          \<longrightarrow> sendFragment ses fragment cs =
                (Return (),
                 sendBytes c (int32BE (min (int (bytesWritten (backendSocket ses))) (pos (cs c)))
                               @ fragment) cs)
              \<and> calls (snd (sendFragment ses fragment cs) c) =
                  calls (cs c)
                  @ [SendBytes (int32BE (min (int (bytesWritten (backendSocket ses))) (pos (cs c)))
                                 @ fragment)]
              \<and> readInt32BE (int32BE (min (int (bytesWritten (backendSocket ses))) (pos (cs c)))
                               @ fragment)
                  = Inr (min (int (bytesWritten (backendSocket ses))) (pos (cs c))))
         \<and> (\<not> (- (2 ^ 31) \<le> min (int (bytesWritten (backendSocket ses))) (pos (cs c))
                \<and> min (int (bytesWritten (backendSocket ses))) (pos (cs c)) < 2 ^ 31)
              \<longrightarrow> sendFragment ses fragment cs = (Throw RangeError, cs))
         \<and> min (int (bytesWritten (backendSocket ses))) (pos (cs c)) \<le> pos (cs c)"
proof (intro conjI impI)
  assume r: "- (2 ^ 31) \<le> min (int (bytesWritten (backendSocket ses))) (pos (cs c))
            \<and> min (int (bytesWritten (backendSocket ses))) (pos (cs c)) < 2 ^ 31"
  then show s: "sendFragment ses fragment cs =
                (Return (),
                 sendBytes c (int32BE (min (int (bytesWritten (backendSocket ses))) (pos (cs c)))
                               @ fragment) cs)"
    using assms by (simp add: sendFragment_in_range)
  show "calls (snd (sendFragment ses fragment cs) c) =
                  calls (cs c)
                  @ [SendBytes (int32BE (min (int (bytesWritten (backendSocket ses))) (pos (cs c)))
                                 @ fragment)]"
    unfolding s by (simp add: calls_sendBytes)
  show "readInt32BE (int32BE (min (int (bytesWritten (backendSocket ses))) (pos (cs c)))
                               @ fragment)
                  = Inr (min (int (bytesWritten (backendSocket ses))) (pos (cs c)))"
    using r by (intro readInt32BE_int32BE) simp_all
next
  assume "\<not> (- (2 ^ 31) \<le> min (int (bytesWritten (backendSocket ses))) (pos (cs c))
                \<and> min (int (bytesWritten (backendSocket ses))) (pos (cs c)) < 2 ^ 31)"
  then show "sendFragment ses fragment cs = (Throw RangeError, cs)"
    using assms by (simp add: sendFragment_def writeInt32BE_def)
qed simp

text \<open>
  Four sends. With 3 octets written and the frontend at 10 the header is 3; with 70000
  written and the frontend at 66051 the header is 66051, high octet first; a frontend at
  -2 gets the two's complement header; and with both counters at 2147483648 the send
  throws and the connection is left as it was.
\<close>

theorem sendFragment_ack_header_witness:
  "calls (snd (sendFragment
         ((Session ''X'')\<lparr>backendSocket := \<lparr>bytesWritten = 3, bytesRead = 0,
                                             outgoing = [97, 98, 99], incoming = []\<rparr>,
                           frontendCon := Some 1\<rparr>)
         [7] (accepted(1 := \<lparr>pos = 10, calls = []\<rparr>))) 1)
     = [SendBytes [0, 0, 0, 3, 7]]
   \<and> readInt32BE [0, 0, 0, 3, 7] = Inr 3
   \<and> calls (snd (sendFragment
         ((Session ''X'')\<lparr>backendSocket := \<lparr>bytesWritten = 70000, bytesRead = 0,
                                             outgoing = [], incoming = []\<rparr>,
                           frontendCon := Some 1\<rparr>)
         [104, 105] (accepted(1 := \<lparr>pos = 66051, calls = [SendBytes [0, 0, 0, 0]]\<rparr>))) 1)
     = [SendBytes [0, 0, 0, 0], SendBytes [0, 1, 2, 3, 104, 105]]
   \<and> readInt32BE [0, 1, 2, 3, 104, 105] = Inr 66051
   \<and> calls (snd (sendFragment
         ((Session ''X'')\<lparr>frontendCon := Some 1\<rparr>)
         [] (accepted(1 := \<lparr>pos = - 2, calls = []\<rparr>))) 1)
     = [SendBytes [255, 255, 255, 254]]
   \<and> readInt32BE [255, 255, 255, 254] = Inr (- 2)
   \<and> sendFragment
         ((Session ''X'')\<lparr>backendSocket := \<lparr>bytesWritten = 2147483648, bytesRead = 0,
                                             outgoing = [], incoming = []\<rparr>,
                           frontendCon := Some 1\<rparr>)
         [7] (accepted(1 := \<lparr>pos = 2147483648, calls = []\<rparr>))
     = (Throw RangeError, accepted(1 := \<lparr>pos = 2147483648, calls = []\<rparr>))"
proof -
  let ?s1 = "(Session ''X'')\<lparr>backendSocket := \<lparr>bytesWritten = 3, bytesRead = 0,
                                             outgoing = [97, 98, 99], incoming = []\<rparr>,
                           frontendCon := Some 1\<rparr>"
  let ?s2 = "(Session ''X'')\<lparr>backendSocket := \<lparr>bytesWritten = 70000, bytesRead = 0,
                                             outgoing = [], incoming = []\<rparr>,
                           frontendCon := Some 1\<rparr>"
  let ?s3 = "(Session ''X'')\<lparr>frontendCon := Some 1\<rparr>"
  let ?s4 = "(Session ''X'')\<lparr>backendSocket := \<lparr>bytesWritten = 2147483648, bytesRead = 0,
                                             outgoing = [], incoming = []\<rparr>,
                           frontendCon := Some 1\<rparr>"
  have a1: "frontendCon ?s1 = Some 1" and a2: "frontendCon ?s2 = Some 1"
    and a3: "frontendCon ?s3 = Some 1" and a4: "frontendCon ?s4 = Some 1"
    by simp_all
  note t1 = sendFragment_ack_header [OF a1, of "accepted(1 := \<lparr>pos = 10, calls = []\<rparr>)" "[7]"]
  note t2 = sendFragment_ack_header [OF a2,
      of "accepted(1 := \<lparr>pos = 66051, calls = [SendBytes [0, 0, 0, 0]]\<rparr>)" "[104, 105]"]
  note t3 = sendFragment_ack_header [OF a3, of "accepted(1 := \<lparr>pos = - 2, calls = []\<rparr>)" "[]"]
  note t4 = sendFragment_ack_header [OF a4, of "accepted(1 := \<lparr>pos = 2147483648, calls = []\<rparr>)" "[7]"]
  have c1: "calls (snd (sendFragment ?s1 [7] (accepted(1 := \<lparr>pos = 10, calls = []\<rparr>))) 1)
              = [SendBytes [0, 0, 0, 3, 7]] \<and> readInt32BE [0, 0, 0, 3, 7] = Inr 3"
    using t1 by (simp add: int32BE_3 sendBytes_def)
  have c2: "calls (snd (sendFragment ?s2 [104, 105]
                         (accepted(1 := \<lparr>pos = 66051, calls = [SendBytes [0, 0, 0, 0]]\<rparr>))) 1)
              = [SendBytes [0, 0, 0, 0], SendBytes [0, 1, 2, 3, 104, 105]]
            \<and> readInt32BE [0, 1, 2, 3, 104, 105] = Inr 66051"
    using t2 by (simp add: int32BE_66051 sendBytes_def)
  have c3: "calls (snd (sendFragment ?s3 [] (accepted(1 := \<lparr>pos = - 2, calls = []\<rparr>))) 1)
              = [SendBytes [255, 255, 255, 254]] \<and> readInt32BE [255, 255, 255, 254] = Inr (- 2)"
    using t3 by (simp add: Session_def int32BE_minus2 sendBytes_def)
  have c4: "sendFragment ?s4 [7] (accepted(1 := \<lparr>pos = 2147483648, calls = []\<rparr>))
              = (Throw RangeError, accepted(1 := \<lparr>pos = 2147483648, calls = []\<rparr>))"
    using t4 by simp
  show ?thesis using c1 c2 c3 c4 by simp
qed

section \<open>Frames from the frontend\<close>

lemma frontendClose_backendSocket: "backendSocket (frontendClose ses c) = backendSocket ses"
  by (simp add: frontendClose_def)

lemma frontendMessage_binary_socket:
  assumes "bslice binaryData
             (max (pos (cs c) + (int (length binaryData) - 4) - int (bytesWritten (backendSocket ses))) 0)
           = Inr unseenPayload"
    and "frontendMessage ses c (Binary binaryData) cs = (r, ses', cs')"
  shows "backendSocket ses' = socket_write (backendSocket ses) unseenPayload
         \<and> pos (cs' c) = pos (cs c) + (int (length binaryData) - 4)"
proof -
  let ?cs1 = "cs(c := (cs c)\<lparr>pos := pos (cs c) + (int (length binaryData) - 4)\<rparr>)"
  let ?ses1 = "ses\<lparr>backendSocket := socket_write (backendSocket ses) unseenPayload\<rparr>"
  show ?thesis
  proof (cases "readInt32BE binaryData")
    case (Inl e)
    then show ?thesis using assms by (auto simp: frontendMessage_def Let_def)
  next
    case (Inr ack)
    obtain ok ses2 where sh: "shrinkBuffer ?ses1 ack = (ok, ses2)"
      by (cases "shrinkBuffer ?ses1 ack")
    from shrinkBuffer_keeps [OF sh]
    have k: "backendSocket ses2 = socket_write (backendSocket ses) unseenPayload"
      by simp
    obtain r2 cs2 where sf: "sendFragment ses2 [] ?cs1 = (r2, cs2)"
      by (cases "sendFragment ses2 [] ?cs1")
    from sendFragment_pos [OF sf, of c]
    have p2: "pos (cs2 c) = pos (cs c) + (int (length binaryData) - 4)"
      by simp
    show ?thesis
      using assms Inr sh sf k p2
      by (cases ok) (auto simp: frontendMessage_def Let_def frontendClose_backendSocket split: if_splits)
  qed
qed

text \<open>
  C1. For a binary frame of at least four octets on a connection whose \<open>pos\<close> is not
  ahead of \<open>bytesWritten\<close>: \<open>pos\<close> advances by the length of the payload, the backend
  socket is handed exactly the last \<open>max (pos - bytesWritten) 0\<close> octets of the payload
  (with the advanced \<open>pos\<close>), and \<open>bytesWritten\<close> grows by that many. This holds however
  the rest of the handler completes.
\<close>

theorem frontendMessage_unseen_suffix:
  assumes "4 \<le> length binaryData"
    and "pos (cs c) \<le> int (bytesWritten (backendSocket ses))"
    and "frontendMessage ses c (Binary binaryData) cs = (r, ses', cs')"
  shows "pos (cs' c) = pos (cs c) + int (length (drop 4 binaryData))
         \<and> outgoing (backendSocket ses') =
             outgoing (backendSocket ses)
             @ drop (length (drop 4 binaryData)
                      - nat (max (pos (cs' c) - int (bytesWritten (backendSocket ses))) 0))
                 (drop 4 binaryData)
         \<and> bytesWritten (backendSocket ses') =
             bytesWritten (backendSocket ses)
             + nat (max (pos (cs' c) - int (bytesWritten (backendSocket ses))) 0)"
proof -
  define n where
    "n = max (pos (cs c) + (int (length binaryData) - 4) - int (bytesWritten (backendSocket ses))) 0"
  have n: "0 \<le> n" "n \<le> int (length binaryData) - 4" using assms(1,2) by (auto simp: n_def)
  then have "bslice binaryData n = Inr (drop (length binaryData - nat n) binaryData)"
    by (intro bslice_tail) auto
  from frontendMessage_binary_socket [OF this [unfolded n_def] assms(3)]
  have sock: "backendSocket ses' =
                socket_write (backendSocket ses) (drop (length binaryData - nat n) binaryData)"
    and p: "pos (cs' c) = pos (cs c) + (int (length binaryData) - 4)"
    by (simp_all add: n_def)
  have len: "int (length (drop 4 binaryData)) = int (length binaryData) - 4" using assms(1) by simp
  have tail: "drop (length binaryData - nat n) binaryData
                = drop (length (drop 4 binaryData) - nat n) (drop 4 binaryData)"
    using n assms(1) by (simp add: nat_le_iff)
  have "length (drop (length binaryData - nat n) binaryData) = nat n"
    using n assms(1) by simp
  then show ?thesis using sock p len tail by (simp add: socket_write_def n_def)
qed

text \<open>
  The backend already has \<open>abcd\<close>; the frontend resumes at position 0 and sends
  \<open>abcdXY\<close> under the ack 0. Only \<open>XY\<close> reaches the backend.
\<close>

theorem frontendMessage_unseen_suffix_witness:
  "4 \<le> length [0, 0, 0, 0, 97, 98, 99, 100, 88, 89 :: byte]
   \<and> pos (accepted 1) \<le> 4
   \<and> pos (snd (snd (frontendMessage
          ((Session ''X'')\<lparr>backendSocket := \<lparr>bytesWritten = 4, bytesRead = 0,
                                              outgoing = [97, 98, 99, 100], incoming = []\<rparr>,
                            frontendCon := Some 1\<rparr>)
          1 (Binary [0, 0, 0, 0, 97, 98, 99, 100, 88, 89]) accepted)) 1) = 6
   \<and> outgoing (backendSocket (fst (snd (frontendMessage
          ((Session ''X'')\<lparr>backendSocket := \<lparr>bytesWritten = 4, bytesRead = 0,
                                              outgoing = [97, 98, 99, 100], incoming = []\<rparr>,
                            frontendCon := Some 1\<rparr>)
          1 (Binary [0, 0, 0, 0, 97, 98, 99, 100, 88, 89]) accepted))))
       = [97, 98, 99, 100, 88, 89]
   \<and> bytesWritten (backendSocket (fst (snd (frontendMessage
          ((Session ''X'')\<lparr>backendSocket := \<lparr>bytesWritten = 4, bytesRead = 0,
                                              outgoing = [97, 98, 99, 100], incoming = []\<rparr>,
                            frontendCon := Some 1\<rparr>)
          1 (Binary [0, 0, 0, 0, 97, 98, 99, 100, 88, 89]) accepted)))) = 6"
proof -
  let ?s = "(Session ''X'')\<lparr>backendSocket := \<lparr>bytesWritten = 4, bytesRead = 0,
                                              outgoing = [97, 98, 99, 100], incoming = []\<rparr>,
                            frontendCon := Some 1\<rparr>"
  let ?f = "[0, 0, 0, 0, 97, 98, 99, 100, 88, 89] :: buffer"
  let ?R = "frontendMessage ?s 1 (Binary ?f) accepted"
  have h1: "4 \<le> length ?f" by simp
  have h2: "pos (accepted 1) \<le> int (bytesWritten (backendSocket ?s))" by (simp add: accepted_def)
  have h3: "?R = (fst ?R, fst (snd ?R), snd (snd ?R))" by simp
  note t = frontendMessage_unseen_suffix [OF h1 h2 h3]
  have p: "pos (snd (snd ?R) 1) = 6" using t by (simp add: accepted_def)
  show ?thesis using t unfolding p by (simp add: accepted_def)
qed

lemma frontendMessage_accepted:
  assumes "bslice binaryData
             (max (pos (cs c) + (int (length binaryData) - 4) - int (bytesWritten (backendSocket ses))) 0)
           = Inr unseenPayload"
    and "readInt32BE binaryData = Inr a"
    and "a \<le> int (bytesRead (backendSocket ses))"
    and "int (bytesRead (backendSocket ses)) - int (length (B2FUnacked ses)) \<le> a"
  shows "frontendMessage ses c (Binary binaryData) cs =
           (let cs1 = cs(c := (cs c)\<lparr>pos := pos (cs c) + (int (length binaryData) - 4)\<rparr>);
                ses2 = ses\<lparr>backendSocket := socket_write (backendSocket ses) unseenPayload,
                           B2FUnacked := drop (length (B2FUnacked ses)
                                                - nat (int (bytesRead (backendSocket ses)) - a))
                                          (B2FUnacked ses)\<rparr>
            in if int (bytesWritten (backendSocket ses2)) - pos (cs1 c) > friendlyBufferRelease
               then (fst (sendFragment ses2 [] cs1), ses2, snd (sendFragment ses2 [] cs1))
               else (Return (), ses2, cs1))"
proof -
  let ?ses1 = "ses\<lparr>backendSocket := socket_write (backendSocket ses) unseenPayload\<rparr>"
  have "shrinkBuffer ?ses1 a =
          (Return True,
           ?ses1\<lparr>B2FUnacked := drop (length (B2FUnacked ses)
                                       - nat (int (bytesRead (backendSocket ses)) - a))
                                 (B2FUnacked ses)\<rparr>)"
    using shrinkBuffer_ok [of a ?ses1] assms(3,4) by (simp add: socket_write_def)
  then show ?thesis
    using assms(1,2) by (simp add: frontendMessage_def Let_def split: prod.splits)
qed

text \<open>
  The handler completes without an exception whenever the frame has its header, the
  position is not ahead of the backend and the positions fit the 32-bit ack field.
\<close>

lemma frontendMessage_returns:
  assumes "frontendCon ses = Some c"
    and "4 \<le> length binaryData"
    and "pos (cs c) \<le> int (bytesWritten (backendSocket ses))"
    and "- (2 ^ 31) \<le> pos (cs c)"
    and "pos (cs c) + (int (length binaryData) - 4) < 2 ^ 31"
  shows "fst (frontendMessage ses c (Binary binaryData) cs) = Return ()"
proof -
  let ?i = "max (pos (cs c) + (int (length binaryData) - 4) - int (bytesWritten (backendSocket ses))) 0"
  let ?cs1 = "cs(c := (cs c)\<lparr>pos := pos (cs c) + (int (length binaryData) - 4)\<rparr>)"
  have "0 \<le> ?i" "?i \<le> int (length binaryData)" using assms(2,3) by auto
  then have b: "bslice binaryData ?i = Inr (drop (length binaryData - nat ?i) binaryData)"
    by (rule bslice_tail)
  let ?ses1 = "ses\<lparr>backendSocket := socket_write (backendSocket ses)
                                         (drop (length binaryData - nat ?i) binaryData)\<rparr>"
  obtain a where r: "readInt32BE binaryData = Inr a"
    using assms(2) by (auto simp: readInt32BE_def Let_def)
  obtain ok ses2 where sh: "shrinkBuffer ?ses1 a = (ok, ses2)" by (cases "shrinkBuffer ?ses1 a")
  from shrinkBuffer_keeps [OF sh] have k: "frontendCon ses2 = Some c"
    "backendSocket ses2 = backendSocket ?ses1" using assms(1) by simp_all
  have nt: "ok \<noteq> Throw e" for e using shrinkBuffer_never_throws [of ?ses1 a e] sh by simp
  have rng: "- (2 ^ 31) \<le> min (int (bytesWritten (backendSocket ses2))) (pos (?cs1 c))"
    "min (int (bytesWritten (backendSocket ses2))) (pos (?cs1 c)) < 2 ^ 31"
    using assms(2,4,5) by (auto simp: min_def)
  have sf: "fst (sendFragment ses2 [] ?cs1) = Return ()"
    by (simp add: sendFragment_in_range [where cs = ?cs1 and c = c and ses = ses2, OF k(1) rng])
  show ?thesis
  proof (cases ok)
    case (Return v)
    then show ?thesis using b r sh sf
      by (auto simp: frontendMessage_def Let_def split: prod.splits)
  next
    case (Throw e)
    then show ?thesis using nt by simp
  qed
qed

text \<open>
  C9, with a bound on \<open>pos\<close>. Take a binary frame on the attached frontend whose ack passes the two
  checks of \<open>shrinkBuffer\<close> and which leaves the frontend's \<open>pos\<close> a signed 32-bit
  number. Then \<open>pos\<close> has advanced by the payload length, and the relay has sent one
  frame of four octets (the header for \<open>pos\<close> and no payload) if \<open>bytesWritten - pos\<close>
  exceeds 1048576 and nothing otherwise, both numbers being those after the frame. In
  particular nothing is sent when \<open>pos\<close> is ahead of \<open>bytesWritten\<close>, which is the
  case exactly when \<open>bslice\<close> has thrown because the position was more than four ahead
  of the backend; in every other case the handler returns.
\<close>

theorem friendly_release_threshold:
  assumes "frontendCon ses = Some c"
    and "readInt32BE binaryData = Inr a"
    and "a \<le> int (bytesRead (backendSocket ses))"
    and "int (bytesRead (backendSocket ses)) - int (length (B2FUnacked ses)) \<le> a"
    and "- (2 ^ 31) \<le> pos (cs c) + (int (length binaryData) - 4)"
    and "pos (cs c) + (int (length binaryData) - 4) < 2 ^ 31"
    and "frontendMessage ses c (Binary binaryData) cs = (r, ses', cs')"
  shows "pos (cs' c) = pos (cs c) + (int (length binaryData) - 4)
         \<and> calls (cs' c) =
             calls (cs c)
             @ (if int (bytesWritten (backendSocket ses')) - pos (cs' c) > 1048576
                then [SendBytes (int32BE (pos (cs' c)))] else [])
         \<and> (pos (cs' c) > int (bytesWritten (backendSocket ses')) \<longrightarrow> calls (cs' c) = calls (cs c))
         \<and> r = (if pos (cs c) > int (bytesWritten (backendSocket ses)) + 4
                then Throw Error else Return ())"
proof -
  let ?np = "pos (cs c) + (int (length binaryData) - 4)"
  let ?i = "max (?np - int (bytesWritten (backendSocket ses))) 0"
  let ?cs1 = "cs(c := (cs c)\<lparr>pos := ?np\<rparr>)"
  have len4: "4 \<le> length binaryData"
    using assms(2) by (auto simp: readInt32BE_def split: if_splits)
  show ?thesis
  proof (cases "int (length binaryData) < ?i")
    case True
    then have "bslice binaryData ?i = Inl Error" by (intro bslice_throws) blast
    then have "frontendMessage ses c (Binary binaryData) cs = (Throw Error, ses, ?cs1)"
      by (simp add: frontendMessage_def Let_def)
    with assms(7) have res: "r = Throw Error" "ses' = ses" "cs' = ?cs1" by simp_all
    have ahead: "int (bytesWritten (backendSocket ses)) + 4 < pos (cs c)"
      using True len4 by linarith
    then have "\<not> int (bytesWritten (backendSocket ses)) - ?np > 1048576"
      using len4 by linarith
    then show ?thesis using res ahead by simp
  next
    case False
    then have i: "0 \<le> ?i" "?i \<le> int (length binaryData)" by simp_all
    then have b: "bslice binaryData ?i = Inr (drop (length binaryData - nat ?i) binaryData)"
      by (rule bslice_tail)
    let ?unseen = "drop (length binaryData - nat ?i) binaryData"
    let ?ses2 = "ses\<lparr>backendSocket := socket_write (backendSocket ses) ?unseen,
                      B2FUnacked := drop (length (B2FUnacked ses)
                                           - nat (int (bytesRead (backendSocket ses)) - a))
                                     (B2FUnacked ses)\<rparr>"
    note m = frontendMessage_accepted [where cs = cs and c = c and ses = ses, OF b assms(2-4),
        unfolded Let_def]
    have att: "frontendCon ?ses2 = Some c" using assms(1) by simp
    have notahead: "\<not> pos (cs c) > int (bytesWritten (backendSocket ses)) + 4"
      using False len4 by linarith
    have bw2: "int (bytesWritten (backendSocket ?ses2)) = int (bytesWritten (backendSocket ses)) + ?i"
      using i by (simp add: socket_write_def)
    then have caught: "?np \<le> int (bytesWritten (backendSocket ?ses2))" by linarith
    show ?thesis
    proof (cases "int (bytesWritten (backendSocket ?ses2)) - pos (?cs1 c) > friendlyBufferRelease")
      case True
      then have lt: "?np < int (bytesWritten (backendSocket ?ses2))"
        by (simp add: friendlyBufferRelease_def)
      then have mn: "min (int (bytesWritten (backendSocket ?ses2))) (pos (?cs1 c)) = ?np"
        by simp
      have sf: "sendFragment ?ses2 [] ?cs1 = (Return (), sendBytes c (int32BE ?np @ []) ?cs1)"
        using sendFragment_in_range [where cs = ?cs1 and c = c and ses = ?ses2 and fragment = "[]",
            OF att] assms(5,6) unfolding mn by simp
      from m True sf assms(7)
      have res: "r = Return ()" "ses' = ?ses2" "cs' = sendBytes c (int32BE ?np) ?cs1"
        by simp_all
      have p: "pos (cs' c) = ?np" and cl: "calls (cs' c) = calls (cs c) @ [SendBytes (int32BE ?np)]"
        using res(3) by (simp_all add: sendBytes_def)
      have "int (bytesWritten (backendSocket ses')) - pos (cs' c) > 1048576"
        using True p res(2) by (simp add: friendlyBufferRelease_def)
      moreover have "\<not> pos (cs' c) > int (bytesWritten (backendSocket ses'))"
        using lt p res(2) by simp
      ultimately show ?thesis using p cl res(1) notahead by simp
    next
      case False
      with m assms(7) have res: "r = Return ()" "ses' = ?ses2" "cs' = ?cs1" by simp_all
      have "\<not> int (bytesWritten (backendSocket ses')) - pos (cs' c) > 1048576"
        using False res by (simp add: friendlyBufferRelease_def)
      then show ?thesis using res notahead by simp
    qed
  qed
qed

text \<open>
  Four frames. With 3 MiB written, the frontend at 66000 and \<open>cdef\<close> unacknowledged, a
  frame with ack 4 and one octet trims the buffer to \<open>ef\<close> and is answered by the bare
  header for 66001. A difference of exactly 1048576 sends nothing, 1048577 sends the
  header. A frontend at 10 on a fresh session makes \<open>bslice\<close> throw, and nothing is sent.
\<close>

theorem friendly_release_threshold_witness:
  "frontendMessage
      ((Session ''X'')\<lparr>backendSocket := \<lparr>bytesWritten = 3145728, bytesRead = 6, outgoing = [],
                                          incoming = [97, 98, 99, 100, 101, 102]\<rparr>,
                        B2FUnacked := [99, 100, 101, 102], frontendCon := Some 1\<rparr>)
      1 (Binary [0, 0, 0, 4, 97]) (accepted(1 := \<lparr>pos = 66000, calls = []\<rparr>))
    = (Return (),
       (Session ''X'')\<lparr>backendSocket := \<lparr>bytesWritten = 3145728, bytesRead = 6, outgoing = [],
                                          incoming = [97, 98, 99, 100, 101, 102]\<rparr>,
                        B2FUnacked := [101, 102], frontendCon := Some 1\<rparr>,
       accepted(1 := \<lparr>pos = 66001, calls = [SendBytes [0, 1, 1, 209]]\<rparr>))
   \<and> calls (snd (snd (frontendMessage
        ((Session ''X'')\<lparr>backendSocket := \<lparr>bytesWritten = 1048586, bytesRead = 0, outgoing = [],
                                            incoming = []\<rparr>, frontendCon := Some 1\<rparr>)
        1 (Binary [0, 0, 0, 0, 97]) (accepted(1 := \<lparr>pos = 9, calls = []\<rparr>)))) 1) = []
   \<and> calls (snd (snd (frontendMessage
        ((Session ''X'')\<lparr>backendSocket := \<lparr>bytesWritten = 1048587, bytesRead = 0, outgoing = [],
                                            incoming = []\<rparr>, frontendCon := Some 1\<rparr>)
        1 (Binary [0, 0, 0, 0, 97]) (accepted(1 := \<lparr>pos = 9, calls = []\<rparr>)))) 1)
       = [SendBytes [0, 0, 0, 10]]
   \<and> frontendMessage ((Session ''X'')\<lparr>frontendCon := Some 1\<rparr>)
        1 (Binary [0, 0, 0, 0, 97]) (accepted(1 := \<lparr>pos = 10, calls = []\<rparr>))
       = (Throw Error, (Session ''X'')\<lparr>frontendCon := Some 1\<rparr>,
          accepted(1 := \<lparr>pos = 11, calls = []\<rparr>))"
proof -
  let ?s1 = "(Session ''X'')\<lparr>backendSocket := \<lparr>bytesWritten = 3145728, bytesRead = 6, outgoing = [],
                                          incoming = [97, 98, 99, 100, 101, 102]\<rparr>,
                        B2FUnacked := [99, 100, 101, 102], frontendCon := Some 1\<rparr>"
  let ?c1 = "accepted(1 := \<lparr>pos = 66000, calls = []\<rparr>)"
  let ?R1 = "frontendMessage ?s1 1 (Binary [0, 0, 0, 4, 97]) ?c1"
  let ?s2 = "(Session ''X'')\<lparr>backendSocket := \<lparr>bytesWritten = 1048586, bytesRead = 0, outgoing = [],
                                            incoming = []\<rparr>, frontendCon := Some 1\<rparr>"
  let ?s3 = "(Session ''X'')\<lparr>backendSocket := \<lparr>bytesWritten = 1048587, bytesRead = 0, outgoing = [],
                                            incoming = []\<rparr>, frontendCon := Some 1\<rparr>"
  let ?s4 = "(Session ''X'')\<lparr>frontendCon := Some 1\<rparr>"
  let ?c2 = "accepted(1 := \<lparr>pos = 9, calls = []\<rparr>)"
  let ?c4 = "accepted(1 := \<lparr>pos = 10, calls = []\<rparr>)"
  let ?R2 = "frontendMessage ?s2 1 (Binary [0, 0, 0, 0, 97]) ?c2"
  let ?R3 = "frontendMessage ?s3 1 (Binary [0, 0, 0, 0, 97]) ?c2"
  let ?R4 = "frontendMessage ?s4 1 (Binary [0, 0, 0, 0, 97]) ?c4"
  have e1: "?R1 = (Return (),
       (Session ''X'')\<lparr>backendSocket := \<lparr>bytesWritten = 3145728, bytesRead = 6, outgoing = [],
                                          incoming = [97, 98, 99, 100, 101, 102]\<rparr>,
                        B2FUnacked := [101, 102], frontendCon := Some 1\<rparr>,
       accepted(1 := \<lparr>pos = 66001, calls = [SendBytes [0, 1, 1, 209]]\<rparr>))"
    by (simp add: frontendMessage_def bslice_def slice_def readInt32BE_def shrinkBuffer_def
        socket_write_def sendFragment_def writeInt32BE_def sendBytes_def friendlyBufferRelease_def
        Session_def accepted_def Let_def int32BE_66001)
  have e4: "?R4 = (Throw Error, ?s4, accepted(1 := \<lparr>pos = 11, calls = []\<rparr>))"
    by (simp add: frontendMessage_def bslice_def Session_def accepted_def Let_def)
  have b1: "bytesWritten (backendSocket (fst (snd ?R1))) = 3145728"
    unfolding e1 by simp
  have b4: "bytesWritten (backendSocket (fst (snd ?R4))) = 0"
    unfolding e4 by (simp add: Session_def)
  have b2: "bytesWritten (backendSocket (fst (snd ?R2))) = 1048586"
    by (simp add: frontendMessage_def bslice_def slice_def readInt32BE_def shrinkBuffer_def
        socket_write_def sendFragment_def writeInt32BE_def sendBytes_def friendlyBufferRelease_def
        Session_def accepted_def Let_def)
  have b3: "bytesWritten (backendSocket (fst (snd ?R3))) = 1048587"
    by (simp add: frontendMessage_def bslice_def slice_def readInt32BE_def shrinkBuffer_def
        socket_write_def sendFragment_def writeInt32BE_def sendBytes_def friendlyBufferRelease_def
        Session_def accepted_def Let_def)
  have rd: "readInt32BE [0, 0, 0, 4, 97] = Inr 4" "readInt32BE [0, 0, 0, 0, 97] = Inr 0"
    by (simp_all add: readInt32BE_def)
  have h1: "?R1 = (fst ?R1, fst (snd ?R1), snd (snd ?R1))"
    and h2: "?R2 = (fst ?R2, fst (snd ?R2), snd (snd ?R2))"
    and h3: "?R3 = (fst ?R3, fst (snd ?R3), snd (snd ?R3))"
    and h4: "?R4 = (fst ?R4, fst (snd ?R4), snd (snd ?R4))"
    by simp_all
  note T1 = friendly_release_threshold [where ses = ?s1 and c = 1 and cs = ?c1
      and binaryData = "[0, 0, 0, 4, 97]" and a = 4, OF _ rd(1) _ _ _ _ h1]
  note T2 = friendly_release_threshold [where ses = ?s2 and c = 1 and cs = ?c2
      and binaryData = "[0, 0, 0, 0, 97]" and a = 0, OF _ rd(2) _ _ _ _ h2]
  note T3 = friendly_release_threshold [where ses = ?s3 and c = 1 and cs = ?c2
      and binaryData = "[0, 0, 0, 0, 97]" and a = 0, OF _ rd(2) _ _ _ _ h3]
  note T4 = friendly_release_threshold [where ses = ?s4 and c = 1 and cs = ?c4
      and binaryData = "[0, 0, 0, 0, 97]" and a = 0, OF _ rd(2) _ _ _ _ h4]
  have "fst ?R1 = Return () \<and> calls (snd (snd ?R1) 1) = [SendBytes (int32BE 66001)]"
    using T1 b1 by (simp add: Session_def)
  then have t1: "fst ?R1 = Return () \<and> calls (snd (snd ?R1) 1) = [SendBytes [0, 1, 1, 209]]"
    by (simp add: int32BE_66001)
  have t2: "calls (snd (snd ?R2) 1) = []"
    using T2 b2 by (simp add: Session_def)
  have "calls (snd (snd ?R3) 1) = [SendBytes (int32BE 10)]"
    using T3 b3 by (simp add: Session_def)
  then have t3: "calls (snd (snd ?R3) 1) = [SendBytes [0, 0, 0, 10]]"
    by (simp add: int32BE_10)
  have t4: "fst ?R4 = Throw Error \<and> calls (snd (snd ?R4) 1) = []"
    using T4 b4 by (simp add: Session_def)
  show ?thesis using e1 t1 t2 t3 t4 e4 by simp
qed

text \<open>
  C9 without the bound on \<open>pos\<close> does not hold. With 2149580800 octets written and the
  attached frontend at 2147483647, a frame with ack 0 and one octet passes the checks and
  leaves \<open>bytesWritten - pos\<close> at 2097152, yet the header for 2147483648 cannot be written:
  the handler throws and no call is made on the connection.
\<close>

theorem friendly_release_threshold_counterexample:
  "frontendCon ((Session ''X'')\<lparr>backendSocket := \<lparr>bytesWritten = 2149580800, bytesRead = 0,
                                                   outgoing = [], incoming = []\<rparr>,
                                 frontendCon := Some 1\<rparr>) = Some 1
   \<and> readInt32BE [0, 0, 0, 0, 97] = Inr 0
   \<and> shrinkBuffer ((Session ''X'')\<lparr>backendSocket := \<lparr>bytesWritten = 2149580800, bytesRead = 0,
                                                   outgoing = [], incoming = []\<rparr>,
                                 frontendCon := Some 1\<rparr>) 0
       = (Return True, (Session ''X'')\<lparr>backendSocket := \<lparr>bytesWritten = 2149580800, bytesRead = 0,
                                                   outgoing = [], incoming = []\<rparr>,
                                 frontendCon := Some 1\<rparr>)
   \<and> frontendMessage
        ((Session ''X'')\<lparr>backendSocket := \<lparr>bytesWritten = 2149580800, bytesRead = 0,
                                            outgoing = [], incoming = []\<rparr>,
                          frontendCon := Some 1\<rparr>)
        1 (Binary [0, 0, 0, 0, 97]) (accepted(1 := \<lparr>pos = 2147483647, calls = []\<rparr>))
       = (Throw RangeError,
          (Session ''X'')\<lparr>backendSocket := \<lparr>bytesWritten = 2149580800, bytesRead = 0,
                                            outgoing = [], incoming = []\<rparr>,
                          frontendCon := Some 1\<rparr>,
          accepted(1 := \<lparr>pos = 2147483648, calls = []\<rparr>))
   \<and> (2149580800 :: int) - 2147483648 > 1048576"
  by (simp add: frontendMessage_def bslice_def slice_def readInt32BE_def shrinkBuffer_def
      socket_write_def sendFragment_def writeInt32BE_def friendlyBufferRelease_def
      Session_def accepted_def Let_def)

text \<open>
  C5. The claim asks that a frame whose ack fails the checks gets the frontend
  protocol-closed and detached. On a fresh session with connection 1 attached, a frame
  with ack 5 (the backend has produced nothing) detaches the connection, but no call is
  made on it: neither the header with ack -1 nor the close.
\<close>

theorem frontendMessage_ack_ahead_no_protocol_close:
  "fst (frontendMessage ((Session ''X'')\<lparr>frontendCon := Some 1\<rparr>) 1 (Binary [0, 0, 0, 5]) accepted)
     = Return ()
   \<and> frontendCon (fst (snd (frontendMessage ((Session ''X'')\<lparr>frontendCon := Some 1\<rparr>) 1
                               (Binary [0, 0, 0, 5]) accepted))) = None
   \<and> calls (snd (snd (frontendMessage ((Session ''X'')\<lparr>frontendCon := Some 1\<rparr>) 1
                        (Binary [0, 0, 0, 5]) accepted)) 1) = []"
  by (simp add: frontendMessage_def bslice_def readInt32BE_def shrinkBuffer_def frontendClose_def
      socket_write_def Session_def accepted_def Let_def)

section \<open>The buffer stays a tail of the backend stream\<close>

lemma unackedTail_Session: "unackedTail (Session uuid)"
  by (simp add: unackedTail_def Session_def)

lemma unackedTail_length:
  "unackedTail ses \<Longrightarrow> length (B2FUnacked ses) \<le> bytesRead (backendSocket ses)"
  unfolding unackedTail_def by (metis diff_le_self length_drop)

lemma unacked_tail_shrunk:
  assumes "bytesRead sock = length (incoming sock)"
    and "buf = drop (length (incoming sock) - length buf) (incoming sock)"
    and "ack \<le> int (bytesRead sock)"
    and "int (bytesRead sock) - int (length buf) \<le> ack"
  shows "drop (length buf - nat (int (bytesRead sock) - ack)) buf = drop (nat ack) (incoming sock)"
proof -
  have le: "length buf \<le> length (incoming sock)"
    by (metis assms(2) diff_le_self length_drop)
  have "0 \<le> ack" using assms(1,4) le by linarith
  have "drop (length buf - nat (int (bytesRead sock) - ack)) buf
          = drop (length buf - nat (int (bytesRead sock) - ack))
              (drop (length (incoming sock) - length buf) (incoming sock))"
    using assms(2) by simp
  also have "\<dots> = drop (length buf - nat (int (bytesRead sock) - ack)
                          + (length (incoming sock) - length buf)) (incoming sock)"
    by simp
  also have "length buf - nat (int (bytesRead sock) - ack) + (length (incoming sock) - length buf)
               = nat ack"
    using assms(1,3,4) le \<open>0 \<le> ack\<close> by linarith
  finally show ?thesis .
qed

lemma unackedTail_backendData:
  assumes "unackedTail ses" and "backendData ses buf cs = (Return (), ses', cs')"
  shows "unackedTail ses'"
proof -
  let ?sock = "backendSocket ses"
  have le: "length (B2FUnacked ses) \<le> length (incoming ?sock)"
    using unackedTail_length [OF assms(1)] assms(1) by (simp add: unackedTail_def)
  have ses': "backendSocket ses' = ?sock\<lparr>bytesRead := bytesRead ?sock + length buf,
                                          incoming := incoming ?sock @ buf\<rparr>"
    "B2FUnacked ses' = B2FUnacked ses @ buf"
    using assms(2) by (auto simp: backendData_def Let_def split: prod.splits completion.splits)
  have "drop (length (incoming ?sock @ buf) - length (B2FUnacked ses @ buf)) (incoming ?sock @ buf)
          = drop (length (incoming ?sock) - length (B2FUnacked ses)) (incoming ?sock) @ buf"
    using le by simp
  then show ?thesis using assms(1) ses' by (simp add: unackedTail_def)
qed

lemma unackedTail_shrinkBuffer:
  assumes "unackedTail ses" and "shrinkBuffer ses a = (r, ses')"
  shows "unackedTail ses'"
proof (cases "a \<le> int (bytesRead (backendSocket ses))
              \<and> int (bytesRead (backendSocket ses)) - int (length (B2FUnacked ses)) \<le> a")
  case True
  let ?sock = "backendSocket ses"
  from assms(1) have inv: "bytesRead ?sock = length (incoming ?sock)"
    "B2FUnacked ses = drop (length (incoming ?sock) - length (B2FUnacked ses)) (incoming ?sock)"
    by (simp_all add: unackedTail_def)
  have a0: "0 \<le> a" using True unackedTail_length [OF assms(1)] by linarith
  have "ses' = ses\<lparr>B2FUnacked := drop (nat a) (incoming ?sock)\<rparr>"
    using assms(2) True shrinkBuffer_ok [of a ses]
      unacked_tail_shrunk [OF inv(1) inv(2), of a] by simp
  moreover have "length (incoming ?sock) - (length (incoming ?sock) - nat a) = nat a"
    using True inv(1) a0 by linarith
  ultimately show ?thesis using inv(1) by (simp add: unackedTail_def)
next
  case False
  then have "ses' = ses" using assms(2) by (auto simp: shrinkBuffer_def)
  then show ?thesis using assms(1) by simp
qed

section \<open>Adoption\<close>

lemma adopt_ahead_of_backend:
  "int (bytesWritten (backendSocket ses)) < p \<Longrightarrow>
     adopt ses c ack p cs =
       (Throw ReferenceError, ses,
        case frontendCon ses of Some old \<Rightarrow> closeProtocol old cs | None \<Rightarrow> cs)"
  by (simp add: adopt_def Let_def)

lemma adopt_installs:
  assumes "p \<le> int (bytesWritten (backendSocket ses))"
    and "ack \<le> int (bytesRead (backendSocket ses))"
    and "int (bytesRead (backendSocket ses)) - int (length (B2FUnacked ses)) \<le> ack"
  shows "adopt ses c ack p cs =
           (let cs2 = (case frontendCon ses of Some old \<Rightarrow> closeProtocol old cs | None \<Rightarrow> cs)
                        (c := ((case frontendCon ses of Some old \<Rightarrow> closeProtocol old cs | None \<Rightarrow> cs) c)
                                \<lparr>pos := p\<rparr>);
                ses2 = ses\<lparr>B2FUnacked := drop (length (B2FUnacked ses)
                                                - nat (int (bytesRead (backendSocket ses)) - ack))
                                          (B2FUnacked ses),
                           frontendCon := Some c\<rparr>
            in (fst (sendFragment ses2 (B2FUnacked ses2) cs2), ses2,
                snd (sendFragment ses2 (B2FUnacked ses2) cs2)))"
  using assms by (simp add: adopt_def shrinkBuffer_ok Let_def split: prod.splits)


lemma unackedTail_adopt:
  assumes "unackedTail ses" and "adopt ses c ack p cs = (r, ses', cs')"
  shows "unackedTail ses'"
proof (cases "p > int (bytesWritten (backendSocket ses))")
  case True
  then show ?thesis using assms by (simp add: adopt_ahead_of_backend)
next
  case False
  obtain ok ses1 where sh: "shrinkBuffer ses ack = (ok, ses1)" by (cases "shrinkBuffer ses ack")
  note u = unackedTail_shrinkBuffer [OF assms(1) sh]
  then have "unackedTail (ses1\<lparr>frontendCon := Some c\<rparr>)" by (simp add: unackedTail_def)
  then show ?thesis using assms(2) False sh u
    by (auto simp: adopt_def Let_def split: completion.splits if_splits prod.splits)
qed





text \<open>
  C4. The claim asks that an adoption with a position ahead of \<open>bytesWritten\<close>
  protocol-closes the new connection and leaves the session usable. With position 100
  on a fresh session the adoption ends in the exception for the undeclared variable, and
  no call has been made on the new connection.
\<close>

theorem adopt_pos_100_throws:
  "fst (adopt (Session ''X'') 1 0 100 accepted) = Throw ReferenceError
   \<and> calls (snd (snd (adopt (Session ''X'') 1 0 100 accepted)) 1) = []"
  by (simp add: adopt_ahead_of_backend Session_def accepted_def)

text \<open>
  C10. Once an adoption has passed its checks, the new connection is the session's
  frontend, whatever was attached before. A close event of any other connection, such as
  the one attached before, leaves that reference as it is; only the close event of the
  attached connection itself clears it.
\<close>

theorem late_close_keeps_new_frontend:
  assumes "p \<le> int (bytesWritten (backendSocket ses))"
    and "ack \<le> int (bytesRead (backendSocket ses))"
    and "int (bytesRead (backendSocket ses)) - int (length (B2FUnacked ses)) \<le> ack"
    and "adopt ses new ack p cs = (r, ses', cs')"
  shows "frontendCon ses' = Some new
         \<and> frontendCon (frontendClose ses' c) = (if c = new then None else Some new)"
proof -
  have "frontendCon (fst (snd (adopt ses new ack p cs))) = Some new"
    by (simp add: adopt_installs [OF assms(1-3)] Let_def)
  then have "frontendCon ses' = Some new" using assms(4) by simp
  then show ?thesis by (simp add: frontendClose_def)
qed

text \<open>Connection 1 is attached, connection 2 is adopted, then connection 1 reports its close.\<close>

theorem late_close_keeps_new_frontend_witness:
  "frontendCon (fst (snd (adopt ((Session ''X'')\<lparr>frontendCon := Some 1\<rparr>) 2 0 0 accepted))) = Some 2
   \<and> frontendCon (frontendClose
         (fst (snd (adopt ((Session ''X'')\<lparr>frontendCon := Some 1\<rparr>) 2 0 0 accepted))) 1) = Some 2"
proof -
  let ?s = "(Session ''X'')\<lparr>frontendCon := Some 1\<rparr>"
  let ?R = "adopt ?s 2 0 0 accepted"
  have h4: "?R = (fst ?R, fst (snd ?R), snd (snd ?R))" by simp
  have "frontendCon (fst (snd ?R)) = Some 2
         \<and> frontendCon (frontendClose (fst (snd ?R)) 1) = (if (1::nat) = 2 then None else Some 2)"
    by (rule late_close_keeps_new_frontend [OF _ _ _ h4]) (simp_all add: Session_def)
  then show ?thesis by simp
qed

section \<open>The registry and the endpoint\<close>

text \<open>
  C6. The claim asks that after the backend socket has closed, a connect with the
  session's identifier is answered like one for an unknown session. Here the session
  \<open>X\<close> is entered, its backend closes, and a connect for \<open>X\<close> arrives: the registry
  holds \<open>null\<close> under \<open>X\<close>, the handler ends in an exception, and no call has been made
  on the new connection.
\<close>

theorem connect_after_backendClose_throws:
  "fst (backendClose (Session ''X'') (callbackSuccess (Session ''X'') Map.empty) accepted) ''X''
     = Some Null
   \<and> fst (wsRequest \<lparr>pathname = ''/connect'', query_sid = Some ''X'', query_ack = 0, query_pos = 0\<rparr> 1
            (fst (backendClose (Session ''X'') (callbackSuccess (Session ''X'') Map.empty) accepted))
            (snd (backendClose (Session ''X'') (callbackSuccess (Session ''X'') Map.empty) accepted)))
       = Throw TypeError
   \<and> calls (snd (snd (wsRequest \<lparr>pathname = ''/connect'', query_sid = Some ''X'', query_ack = 0, query_pos = 0\<rparr> 1
            (fst (backendClose (Session ''X'') (callbackSuccess (Session ''X'') Map.empty) accepted))
            (snd (backendClose (Session ''X'') (callbackSuccess (Session ''X'') Map.empty) accepted)))) 1)
       = []"
  by (simp add: wsRequest_def backendClose_def callbackSuccess_def Session_def accepted_def)

text \<open>
  C7. The claim asks that a request whose path is not \<open>/connect\<close> is protocol-closed
  and never adopted. A request for \<open>/other\<close> that names the live session \<open>X\<close> is
  protocol-closed and then adopted all the same: the closed connection becomes the
  session's frontend and is sent the resume fragment.
\<close>

theorem connect_wrong_path_still_adopts:
  "fst (wsRequest \<lparr>pathname = ''/other'', query_sid = Some ''X'', query_ack = 0, query_pos = 0\<rparr> 1
          (callbackSuccess (Session ''X'') Map.empty) accepted) = Return ()
   \<and> fst (snd (wsRequest \<lparr>pathname = ''/other'', query_sid = Some ''X'', query_ack = 0, query_pos = 0\<rparr> 1
          (callbackSuccess (Session ''X'') Map.empty) accepted)) ''X''
       = Some (Object ((Session ''X'')\<lparr>frontendCon := Some 1\<rparr>))
   \<and> calls (snd (snd (wsRequest \<lparr>pathname = ''/other'', query_sid = Some ''X'', query_ack = 0, query_pos = 0\<rparr> 1
          (callbackSuccess (Session ''X'') Map.empty) accepted)) 1)
       = [SendBytes [255, 255, 255, 255], Close, SendBytes [0, 0, 0, 0]]"
  by (simp add: wsRequest_def callbackSuccess_def adopt_def shrinkBuffer_def bslice_def
      sendFragment_def writeInt32BE_def closeProtocol_def close_def sendBytes_def
      Session_def accepted_def Let_def int32BE_0 int32BE_minus1)

end
